theory Spec2Isabelle
  imports Main
begin

section \<open>Host types\<close>

text \<open>
  The package consists of TypeScript declaration files only, so the program that is embedded
  here is a program over types: a type alias is a definition, a generic alias is a function
  from types to types, a conditional type is a case distinction, an interface is data.

  \<open>ty\<close> is the fragment of the host type language that the declarations use:
  \<open>number\<close>, \<open>string\<close>, \<open>boolean\<close>, \<open>unknown\<close>, \<open>null\<close>, \<open>void\<close>, a reference
  \<open>TRef n\<close> to a nominal class or interface declared elsewhere, a union of two types, a
  function type, and an interface type given by its named members (name, \<open>readonly\<close> flag,
  type) in declaration order together with its index signature (key type, value type) when
  it has one.
\<close>

datatype ty =
    TNumber
  | TString
  | TBoolean
  | TUnknown
  | TNull
  | TVoid
  | TRef string
  | TUnion ty ty
  | TFun "ty list" ty
  | TInterface "(string \<times> bool \<times> ty) list" "(ty \<times> ty) option"

fun members :: "ty \<Rightarrow> (string \<times> bool \<times> ty) list" where
  "members (TInterface ms ix) = ms"
| "members _ = []"

fun index_signature :: "ty \<Rightarrow> (ty \<times> ty) option" where
  "index_signature (TInterface ms ix) = ix"
| "index_signature _ = None"

section \<open>types.d.ts: aliases of the runtime primitives\<close>

text \<open>
  \<^verbatim>\<open>export type sbyte = number; // System.SByte\<close> and so on, one definition per alias, in
  the order of the file. The alias \<open>int\<close> is written \<open>int_ty\<close>: \<open>int\<close> is the conversion
  from \<open>nat\<close> in HOL.
\<close>

definition sbyte :: ty where "sbyte = TNumber"
definition short :: ty where "short = TNumber"
definition int_ty :: ty where "int_ty = TNumber"
definition long :: ty where "long = TNumber"
definition nint :: ty where "nint = TNumber"
definition int128 :: ty where "int128 = TNumber"

definition byte :: ty where "byte = TNumber"
definition ushort :: ty where "ushort = TNumber"
definition uint :: ty where "uint = TNumber"
definition ulong :: ty where "ulong = TNumber"
definition nuint :: ty where "nuint = TNumber"
definition uint128 :: ty where "uint128 = TNumber"

definition half :: ty where "half = TNumber"
definition float :: ty where "float = TNumber"
definition double :: ty where "double = TNumber"
definition decimal :: ty where "decimal = TNumber"

definition bool_ty :: ty where "bool_ty = TBoolean"
definition char_ty :: ty where "char_ty = TString"

text \<open>\<^verbatim>\<open>export type ptr<T> = unknown;\<close>\<close>

definition ptr :: "ty \<Rightarrow> ty" where "ptr T = TUnknown"

text \<open>The parameter passing modifiers \<^verbatim>\<open>out<T> = T\<close>, \<^verbatim>\<open>ref<T> = T\<close>, \<^verbatim>\<open>inref<T> = T\<close>.\<close>

definition out :: "ty \<Rightarrow> ty" where "out T = T"
definition ref :: "ty \<Rightarrow> ty" where "ref T = T"
definition inref :: "ty \<Rightarrow> ty" where "inref T = T"

text \<open>The numeric aliases the module exports, in the order of the file.\<close>

definition numeric_aliases :: "ty list" where
  "numeric_aliases =
     [sbyte, short, int_ty, long, nint, int128,
      byte, ushort, uint, ulong, nuint, uint128,
      half, float, double, decimal]"

section \<open>lang.d.ts: the receiver marker and Span\<close>

text \<open>\<^verbatim>\<open>export type thisarg<T> = T;\<close> (versions/10/lang.d.ts).\<close>

definition thisarg :: "ty \<Rightarrow> ty" where "thisarg T = T"

text \<open>
  \<open>Span<T>\<close> is declared twice. In src/lang.d.ts:
  \<^verbatim>\<open>export interface Span<T> { readonly length: int; [index: number]: T; }\<close>
  and in src/versions/10/lang.d.ts:
  \<^verbatim>\<open>export interface Span<T> { readonly Length: int; [index: number]: T; }\<close>
\<close>

definition Span :: "ty \<Rightarrow> ty" where
  "Span T = TInterface [(''length'', True, int_ty)] (Some (TNumber, T))"

definition Span_v10 :: "ty \<Rightarrow> ty" where
  "Span_v10 T = TInterface [(''Length'', True, int_ty)] (Some (TNumber, T))"

text \<open>An interface with its member names left out: what remains of the members is the
  \<open>readonly\<close> flag and the type, in declaration order.\<close>

definition member_shapes :: "ty \<Rightarrow> (bool \<times> ty) list" where
  "member_shapes T = map snd (members T)"

text \<open>The names of the declared members of an interface, in declaration order, and the
  type of the declared member of a given name.\<close>

definition member_names :: "ty \<Rightarrow> string list" where
  "member_names T = map fst (members T)"


section \<open>attributes.d.ts: constructor overloads\<close>

text \<open>
  A constructor signature is modelled by its parameter list, a tuple of parameter types;
  the parameters are positional and required, as the signatures of an attribute are in the
  specification. A class constructor type is modelled by its class name (what the emitted
  annotation names) and its construct signatures in declaration order. \<open>AttributeCtor\<close>
  requires a construct signature, so an attribute class has at least one.
\<close>

type_synonym parameter_list = "ty list"

record AttributeCtor =
  native_name :: string
  signatures :: "parameter_list list"

text \<open>
  A union of tuple types, by its alternatives; the empty union is \<open>never\<close>.
\<close>

type_synonym tuple_union = "parameter_list list"

text \<open>
  The test of each conditional type in \<open>OverloadedConstructorParameters\<close>,
  \<^verbatim>\<open>C extends { new (...args: infer A1): any; ...; new (...args: infer Ak): any }\<close>,
  infers \<open>A1 .. Ak\<close> from the construct signatures of \<open>C\<close>. The host checker pairs the
  signatures of \<open>C\<close> with those of the pattern from the last one backwards, and pairs the
  first signature of \<open>C\<close> with the pattern signatures in excess when \<open>C\<close> has fewer: pattern
  signature \<open>i\<close> (counted from 0) takes the parameters of signature
  \<open>max (length C - k + i) 0\<close> of \<open>C\<close>, here written with the truncating subtraction of
  \<open>nat\<close>. That index is below \<open>length C\<close> for \<open>i < k\<close>. A type with no construct signature
  gives no inference and fails the test. Every inferred \<open>Ai\<close> is the parameter list of a
  signature of \<open>C\<close>, so \<open>C\<close> is assignable to the pattern so instantiated and the test
  succeeds whenever the inference does.
\<close>

definition infer_constructor_parameters ::
  "nat \<Rightarrow> parameter_list list \<Rightarrow> parameter_list list option" where
  "infer_constructor_parameters k C =
     (if C = [] then None
      else Some (map (\<lambda>i. C ! (length C + i - k)) [0..<k]))"

text \<open>
  The chain of five conditional types, tried in the order of the source: five signatures,
  then four, three, two, one, and \<open>never\<close> last. The result \<open>A1 | ... | Ak\<close> is the union
  of the inferred tuples.
\<close>

definition OverloadedConstructorParameters :: "parameter_list list \<Rightarrow> tuple_union" where
  "OverloadedConstructorParameters C =
     (case infer_constructor_parameters 5 C of
        Some As5 \<Rightarrow> As5
      | None \<Rightarrow>
     (case infer_constructor_parameters 4 C of
        Some As4 \<Rightarrow> As4
      | None \<Rightarrow>
     (case infer_constructor_parameters 3 C of
        Some As3 \<Rightarrow> As3
      | None \<Rightarrow>
     (case infer_constructor_parameters 2 C of
        Some As2 \<Rightarrow> As2
      | None \<Rightarrow>
     (case infer_constructor_parameters 1 C of
        Some As1 \<Rightarrow> As1
      | None \<Rightarrow> [])))))"

text \<open>
  A call passes the arguments \<open>A\<close> (their static types, in order) to the rest parameter
  \<^verbatim>\<open>...args: OverloadedConstructorParameters<C>\<close>. The argument tuple is assignable to a
  tuple type when both have the same length and each argument type is assignable to the
  parameter type at its position, and to a union of tuple types when it is assignable to one
  of the alternatives. Assignability between argument and parameter types is the host
  pipeline's and is taken as the parameter \<open>assignable\<close>.
\<close>

definition tuple_assignable :: "(ty \<Rightarrow> ty \<Rightarrow> bool) \<Rightarrow> ty list \<Rightarrow> parameter_list \<Rightarrow> bool" where
  "tuple_assignable assignable A S = list_all2 assignable A S"

definition rest_accepts :: "(ty \<Rightarrow> ty \<Rightarrow> bool) \<Rightarrow> tuple_union \<Rightarrow> ty list \<Rightarrow> bool" where
  "rest_accepts assignable U A = list_ex (tuple_assignable assignable A) U"

text \<open>The static errors of the annotation subsystem.\<close>

datatype static_error = NoMatchingOverload | UnresolvedMember

text \<open>
  \<^verbatim>\<open>add<C extends AttributeCtor>(ctor: C, ...args: OverloadedConstructorParameters<C>): void\<close>:
  the static check of a call with constructor \<open>C\<close> and argument types \<open>A\<close>. The other overload
  of \<open>add\<close> takes one descriptor and no constructor, so it does not apply to such a call.
\<close>

definition add :: "(ty \<Rightarrow> ty \<Rightarrow> bool) \<Rightarrow> AttributeCtor \<Rightarrow> ty list \<Rightarrow> static_error + unit" where
  "add assignable C A =
     (if rest_accepts assignable (OverloadedConstructorParameters (signatures C)) A
      then Inr ()
      else Inl NoMatchingOverload)"



definition ThreeLast :: AttributeCtor where
  "ThreeLast =
     \<lparr>native_name = ''ThreeLast'', signatures = [[TString], [TString, TNumber, TBoolean]]\<rparr>"



section \<open>attributes.d.ts: selecting a member\<close>

text \<open>
  The instance type \<open>T\<close> of the class that \<open>on\<close> targets is modelled by its members, name and
  type, in declaration order: the members of a type are keyed by name, as in the
  specification, and a selector names one of them. An instance type has no index signature
  and no call signature here. \<open>keyof T\<close> is then the union of the member names, and \<open>T[K]\<close>
  for one key \<open>K\<close> is the type of that member.
\<close>

type_synonym instance_type = "(string \<times> ty) list"

definition keyof :: "instance_type \<Rightarrow> string list" where
  "keyof T = map fst T"

definition indexed_access :: "instance_type \<Rightarrow> string \<Rightarrow> ty option" where
  "indexed_access T K = map_of T K"

text \<open>
  \<^verbatim>\<open>T[K] extends (...args: any[]) => any\<close>, a test of assignability: a function type
  passes, with any parameters and result; a union passes when both its parts do (the test
  is on \<open>T[K]\<close>, not on a type parameter, so it does not distribute); no other type of the
  fragment passes (an interface of the fragment has no call signature, \<open>TRef\<close> stands for
  a class or an interface without one, and \<open>null\<close> is a type of its own, as the result
  type \<open>T | null\<close> of \<open>trycast\<close> presumes).
\<close>

fun callable :: "ty \<Rightarrow> bool" where
  "callable (TFun ps r) = True"
| "callable (TUnion a b) = (callable a \<and> callable b)"
| "callable _ = False"

text \<open>
  \<^verbatim>\<open>MethodKeys<T> = { [K in keyof T]-?: T[K] extends (...args: any[]) => any ? K : never }[keyof T]\<close>
  is the union of the keys whose member passes the test; \<open>PropertyKeys<T>\<close> swaps the
  branches. A union of keys is the list of its keys.
\<close>

definition MethodKeys :: "instance_type \<Rightarrow> string list" where
  "MethodKeys T =
     filter (\<lambda>K. case indexed_access T K of Some V \<Rightarrow> callable V | None \<Rightarrow> False) (keyof T)"

definition PropertyKeys :: "instance_type \<Rightarrow> string list" where
  "PropertyKeys T =
     filter (\<lambda>K. case indexed_access T K of Some V \<Rightarrow> \<not> callable V | None \<Rightarrow> False) (keyof T)"

text \<open>
  A target builder is bound to one entity of the selected type: the type itself, its
  constructor, a method or a property.
\<close>

datatype AttributeTargetBuilder =
    TypeTarget
  | CtorTarget
  | MethodTarget string
  | PropertyTarget string

text \<open>
  The parts of a type: those of a union are the parts of its two sides, and a type that is
  not a union is its only part. \<open>T[K]\<close> for a union of keys \<open>K\<close> is the union of the types
  \<open>T[k]\<close> of its keys, given here by its parts; for the empty union of keys it is \<open>never\<close>,
  which has none.
\<close>

fun constituents :: "ty \<Rightarrow> ty list" where
  "constituents (TUnion a b) = constituents a @ constituents b"
| "constituents T = [T]"

definition indexed_access_union :: "instance_type \<Rightarrow> string list \<Rightarrow> ty list" where
  "indexed_access_union T K =
     concat (map (\<lambda>k. case indexed_access T k of Some V \<Rightarrow> constituents V | None \<Rightarrow> []) K)"

text \<open>
  \<^verbatim>\<open>method<K extends MethodKeys<T>>(selector: (t: T) => T[K]): AttributeTargetBuilder\<close> and
  \<^verbatim>\<open>prop<K extends PropertyKeys<T>>(selector: (t: T) => T[K]): AttributeTargetBuilder\<close>.
  A selector is a member access \<^verbatim>\<open>t => t.m\<close>, given by the member name \<open>m\<close>; its result type
  is \<open>T[m]\<close>, and there is none when \<open>T\<close> has no member \<open>m\<close>. \<open>K\<close> is the type argument of the
  call, a union of keys; a call that leaves \<open>K\<close> out gives the checker nothing to infer it
  from, and \<open>K\<close> is then its constraint. The call type-checks when \<open>K\<close> satisfies its
  constraint and the selector is assignable to \<^verbatim>\<open>(t: T) => T[K]\<close>, that is, its result type
  is assignable to \<open>T[K]\<close>: every part of the result type is assignable to a part of \<open>T[K]\<close>.
  Assignability between types that are not unions is the host's, the parameter
  \<open>assignable\<close>.

  \<open>method\<close> and \<open>prop\<close> are written \<open>method_sel\<close> and \<open>prop_sel\<close>: the two names are commands of
  Isabelle.
\<close>

definition selector_assignable ::
  "(ty \<Rightarrow> ty \<Rightarrow> bool) \<Rightarrow> instance_type \<Rightarrow> string list \<Rightarrow> string \<Rightarrow> bool" where
  "selector_assignable assignable T K m =
     (case indexed_access T m of
        None \<Rightarrow> False
      | Some R \<Rightarrow>
          list_all (\<lambda>r. list_ex (assignable r) (indexed_access_union T K)) (constituents R))"

definition method_sel ::
  "(ty \<Rightarrow> ty \<Rightarrow> bool) \<Rightarrow> instance_type \<Rightarrow> string list \<Rightarrow> string
     \<Rightarrow> static_error + AttributeTargetBuilder" where
  "method_sel assignable T K m =
     (if list_all (\<lambda>k. k \<in> set (MethodKeys T)) K \<and> selector_assignable assignable T K m
      then Inr (MethodTarget m)
      else Inl UnresolvedMember)"

definition prop_sel ::
  "(ty \<Rightarrow> ty \<Rightarrow> bool) \<Rightarrow> instance_type \<Rightarrow> string list \<Rightarrow> string
     \<Rightarrow> static_error + AttributeTargetBuilder" where
  "prop_sel assignable T K m =
     (if list_all (\<lambda>k. k \<in> set (PropertyKeys T)) K \<and> selector_assignable assignable T K m
      then Inr (PropertyTarget m)
      else Inl UnresolvedMember)"

text \<open>
  An assignability relation to run examples with: every type is assignable to itself and
  to \<open>unknown\<close>. The host's relation contains it.
\<close>

fun assignable_top :: "ty \<Rightarrow> ty \<Rightarrow> bool" where
  "assignable_top S TUnknown = True"
| "assignable_top S T = (S = T)"

text \<open>Instance types used as examples: \<^verbatim>\<open>{ name: string; save(): void }\<close>,
  \<^verbatim>\<open>{ save(): void; meta: unknown }\<close> and
  \<^verbatim>\<open>{ h: (() => void) | ((x: number) => void); name: string }\<close>.\<close>

definition User :: instance_type where
  "User = [(''name'', TString), (''save'', TFun [] TVoid)]"

definition Tagged :: instance_type where
  "Tagged = [(''save'', TFun [] TVoid), (''meta'', TUnknown)]"

definition TwoFns :: instance_type where
  "TwoFns = [(''h'', TUnion (TFun [] TVoid) (TFun [TNumber] TVoid)), (''name'', TString)]"

section \<open>attributes.d.ts: descriptors and their attachment\<close>








section \<open>lang.d.ts: the cast intrinsics\<close>






section \<open>lang.d.ts: the default value of a type\<close>

text \<open>
  The compile-time types \<open>defaultof<T>()\<close> is called with are the runtime's types, which
  types.d.ts names in its comments: the sixteen numeric primitives, \<open>System.Boolean\<close>,
  \<open>System.Char\<close>, a struct (an interface that extends the marker \<open>struct\<close>; here with the
  types of its fields, in order), and a reference type (a class or an interface).
\<close>

datatype clr_numeric =
    SByte | Int16 | Int32 | Int64 | IntPtr | Int128
  | Byte | UInt16 | UInt32 | UInt64 | UIntPtr | UInt128
  | Half | Single | Double | Decimal

datatype clr_type =
    Numeric clr_numeric
  | Boolean
  | Char
  | Struct string "clr_type list"
  | Reference string

datatype clr_value =
    Num int
  | Bool bool
  | Chr nat
  | StructVal "clr_value list"
  | Null

text \<open>Value-like types: the primitives and the structs.\<close>

fun value_like :: "clr_type \<Rightarrow> bool" where
  "value_like (Reference n) = False"
| "value_like _ = True"

text \<open>
  Modelled from the spec: the value of \<open>defaultof<T>()\<close>, of which src/ has the declaration
  \<^verbatim>\<open>defaultof<T>(): T\<close> and the documented examples \<open>0\<close>, \<open>false\<close> and \<open>null\<close>. The zero
  of a numeric type, \<open>false\<close>, the character of code 0, the struct whose fields all have
  their default value, and \<open>null\<close> for a reference type.
\<close>

fun defaultof :: "clr_type \<Rightarrow> clr_value" where
  "defaultof (Numeric k) = Num 0"
| "defaultof Boolean = Bool False"
| "defaultof Char = Chr 0"
| "defaultof (Struct n ts) = StructVal (map defaultof ts)"
| "defaultof (Reference n) = Null"

text \<open>The zero or empty value: nothing in it but zero, \<open>false\<close>, the character of code 0
  and \<open>null\<close>.\<close>

fun zero_value :: "clr_value \<Rightarrow> bool" where
  "zero_value (Num i) = (i = 0)"
| "zero_value (Bool b) = (\<not> b)"
| "zero_value (Chr c) = (c = 0)"
| "zero_value (StructVal vs) = list_all zero_value vs"
| "zero_value Null = True"

text \<open>A value of a type, by its shape: a number of a numeric type (the ranges of the
  numeric types are not modelled), a truth value of \<open>System.Boolean\<close>, a UTF-16 code unit
  of \<open>System.Char\<close>, a struct value with a value of each field type, and \<open>null\<close> of a
  reference type (objects are not modelled).\<close>

fun has_type :: "clr_value \<Rightarrow> clr_type \<Rightarrow> bool" where
  "has_type (Num i) (Numeric k) = True"
| "has_type (Bool b) Boolean = True"
| "has_type (Chr c) Char = (c < 65536)"
| "has_type (StructVal vs) (Struct n ts) = list_all2 has_type vs ts"
| "has_type Null (Reference n) = True"
| "has_type _ _ = False"

section \<open>Lemmas\<close>

subsection \<open>The extracted parameter lists\<close>

lemma in_set_drop_nth:
  "(x \<in> set (drop m xs)) = (\<exists>j. m \<le> j \<and> j < length xs \<and> xs ! j = x)"
proof
  assume "x \<in> set (drop m xs)"
  then obtain i where i: "i < length xs - m" and x: "drop m xs ! i = x"
    by (auto simp: in_set_conv_nth)
  have "m + i < length xs" using i by arith
  moreover have "xs ! (m + i) = x" using x i by simp
  ultimately show "\<exists>j. m \<le> j \<and> j < length xs \<and> xs ! j = x"
    by (intro exI[of _ "m + i"]) simp
next
  assume "\<exists>j. m \<le> j \<and> j < length xs \<and> xs ! j = x"
  then obtain j where j: "m \<le> j" "j < length xs" and x: "xs ! j = x" by blast
  have "j - m < length (drop m xs)" using j by simp
  moreover have "drop m xs ! (j - m) = x" using j x by simp
  ultimately show "x \<in> set (drop m xs)" by (metis nth_mem)
qed

lemma OverloadedConstructorParameters_nonempty:
  "C \<noteq> [] \<Longrightarrow>
     OverloadedConstructorParameters C = map (\<lambda>i. C ! (length C + i - 5)) [0..<5]"
  by (simp add: OverloadedConstructorParameters_def infer_constructor_parameters_def)

lemma OverloadedConstructorParameters_empty: "OverloadedConstructorParameters [] = []"
  by (simp add: OverloadedConstructorParameters_def infer_constructor_parameters_def)

lemma set_OverloadedConstructorParameters:
  "set (OverloadedConstructorParameters C) = set (drop (length C - 5) C)"
proof (cases "C = []")
  case True
  then show ?thesis by (simp add: OverloadedConstructorParameters_empty)
next
  case False
  then have n: "0 < length C" by simp
  have "set (map (\<lambda>i. C ! (length C + i - 5)) [0..<5]) = set (drop (length C - 5) C)"
  proof (intro set_eqI iffI)
    fix S assume "S \<in> set (map (\<lambda>i. C ! (length C + i - 5)) [0..<5])"
    then obtain i where i: "i < 5" and S: "S = C ! (length C + i - 5)" by auto
    have "length C + i - 5 < length C" using i n by arith
    moreover have "length C - 5 \<le> length C + i - 5" by arith
    ultimately show "S \<in> set (drop (length C - 5) C)"
      unfolding in_set_drop_nth using S by blast
  next
    fix S assume "S \<in> set (drop (length C - 5) C)"
    then obtain j where j: "length C - 5 \<le> j" "j < length C" and S: "C ! j = S"
      unfolding in_set_drop_nth by blast
    have i: "j + 5 - length C < 5" using j by arith
    have "length C + (j + 5 - length C) - 5 = j" using j by arith
    then have "S = (\<lambda>i. C ! (length C + i - 5)) (j + 5 - length C)" using S by simp
    moreover have "j + 5 - length C \<in> set [0..<5]" using i by simp
    ultimately show "S \<in> set (map (\<lambda>i. C ! (length C + i - 5)) [0..<5])"
      unfolding set_map by (rule image_eqI)
  qed
  then show ?thesis unfolding OverloadedConstructorParameters_nonempty[OF False] .
qed




subsection \<open>Keys and selectors\<close>

lemma User_access:
  "indexed_access User ''name'' = Some TString"
  "indexed_access User ''save'' = Some (TFun [] TVoid)"
  "keyof User = [''name'', ''save'']"
  by (simp_all add: User_def indexed_access_def keyof_def)

lemma User_keys: "MethodKeys User = [''save'']" "PropertyKeys User = [''name'']"
  by (simp_all add: MethodKeys_def PropertyKeys_def User_access)

lemma Tagged_access:
  "indexed_access Tagged ''save'' = Some (TFun [] TVoid)"
  "indexed_access Tagged ''meta'' = Some TUnknown"
  "keyof Tagged = [''save'', ''meta'']"
  by (simp_all add: Tagged_def indexed_access_def keyof_def)

lemma Tagged_keys: "MethodKeys Tagged = [''save'']" "PropertyKeys Tagged = [''meta'']"
  by (simp_all add: MethodKeys_def PropertyKeys_def Tagged_access)

lemma TwoFns_access:
  "indexed_access TwoFns ''h'' = Some (TUnion (TFun [] TVoid) (TFun [TNumber] TVoid))"
  "indexed_access TwoFns ''name'' = Some TString"
  "keyof TwoFns = [''h'', ''name'']"
  by (simp_all add: TwoFns_def indexed_access_def keyof_def)

lemma TwoFns_keys: "MethodKeys TwoFns = [''h'']" "PropertyKeys TwoFns = [''name'']"
  by (simp_all add: MethodKeys_def PropertyKeys_def TwoFns_access)

text \<open>The ordinary cases: on \<^verbatim>\<open>{ name: string; save(): void }\<close>, \<open>method\<close> takes \<open>save\<close>,
  \<open>prop\<close> takes \<open>name\<close>, and each refuses the other member; a member whose type is a union of
  function types is a method.\<close>

lemma User_selectors:
  "method_sel assignable_top User (MethodKeys User) ''save'' = Inr (MethodTarget ''save'')"
  "method_sel assignable_top User (MethodKeys User) ''name'' = Inl UnresolvedMember"
  "prop_sel assignable_top User (PropertyKeys User) ''name'' = Inr (PropertyTarget ''name'')"
  "prop_sel assignable_top User (PropertyKeys User) ''save'' = Inl UnresolvedMember"
  by (simp_all add: method_sel_def prop_sel_def selector_assignable_def indexed_access_union_def
      User_access User_keys)

lemma TwoFns_selectors:
  "method_sel assignable_top TwoFns (MethodKeys TwoFns) ''h'' = Inr (MethodTarget ''h'')"
  "prop_sel assignable_top TwoFns (PropertyKeys TwoFns) ''h'' = Inl UnresolvedMember"
  "prop_sel assignable_top TwoFns [''h''] ''h'' = Inl UnresolvedMember"
  by (simp_all add: method_sel_def prop_sel_def selector_assignable_def indexed_access_union_def
      TwoFns_access TwoFns_keys)

subsection \<open>Descriptors and default values\<close>



lemma defaultof_zero_value: "zero_value (defaultof T)"
  by (induction T) (simp_all add: list_all_iff)

lemma defaultof_has_type: "has_type (defaultof T) T"
  by (induction T) (simp_all add: list_all2_conv_all_nth)

lemma defaultof_Null_iff: "(defaultof T = Null) = (\<not> value_like T)"
  by (cases T) simp_all

section \<open>The claims\<close>






text \<open>
  C3. For a constructor with one to five signatures the extracted parameter type is the
  union of the parameter lists of all of them, with as many distinct alternatives as there
  are distinct signatures; and a constructor with at least one signature never yields the
  empty union.
\<close>

theorem extracted_parameters_are_union:
  "(1 \<le> length C \<and> length C \<le> 5 \<longrightarrow>
      set (OverloadedConstructorParameters C) = set C
      \<and> (distinct C \<longrightarrow> card (set (OverloadedConstructorParameters C)) = length C))
   \<and> (C \<noteq> [] \<longrightarrow> OverloadedConstructorParameters C \<noteq> [])"
proof -
  have "set (OverloadedConstructorParameters C) = set C" if "length C \<le> 5"
    using that by (simp add: set_OverloadedConstructorParameters)
  moreover have "OverloadedConstructorParameters C \<noteq> []" if "C \<noteq> []"
    by (simp add: OverloadedConstructorParameters_nonempty [OF that] upt_rec)
  ultimately show ?thesis by (auto simp: distinct_card)
qed

text \<open>
  C3 at an input: a class with a one-parameter and a three-parameter signature.
\<close>

theorem extracted_parameters_are_union_witness:
  "1 \<le> length (signatures ThreeLast) \<and> length (signatures ThreeLast) \<le> 5
   \<and> distinct (signatures ThreeLast) \<and> signatures ThreeLast \<noteq> []
   \<and> set (OverloadedConstructorParameters (signatures ThreeLast))
       = {[TString], [TString, TNumber, TBoolean]}
   \<and> card (set (OverloadedConstructorParameters (signatures ThreeLast))) = 2
   \<and> OverloadedConstructorParameters (signatures ThreeLast) \<noteq> []"
  using extracted_parameters_are_union [of "signatures ThreeLast"]
  by (simp add: ThreeLast_def)

text \<open>
  C4, at the input where the code departs from it. On the instance type
  \<^verbatim>\<open>{ save(): void; meta: unknown }\<close> the member \<open>save\<close> is callable: it is a method key and
  not a property key. Yet \<open>prop\<close>, with \<open>K\<close> left to inference, accepts the selector
  \<^verbatim>\<open>u => u.save\<close>: the declaration compares the result type of the selector with \<open>T[K]\<close>,
  and the type of \<open>save\<close> is assignable to the type \<open>unknown\<close> of the property \<open>meta\<close>.
\<close>

theorem property_accepts_callable_member:
  "indexed_access Tagged ''save'' = Some (TFun [] TVoid)
   \<and> callable (TFun [] TVoid)
   \<and> MethodKeys Tagged = [''save'']
   \<and> PropertyKeys Tagged = [''meta'']
   \<and> prop_sel assignable_top Tagged (PropertyKeys Tagged) ''save'' = Inr (PropertyTarget ''save'')"
  by (simp add: prop_sel_def selector_assignable_def indexed_access_union_def
      Tagged_access Tagged_keys)



text \<open>
  C6. \<open>defaultof<T>()\<close> is a value of \<open>T\<close>; for a value-like \<open>T\<close> it is the zero or empty value
  and not \<open>null\<close>, and for a reference-like \<open>T\<close> it is \<open>null\<close>.
\<close>

theorem defaultof_zero_or_null:
  "has_type (defaultof T) T
   \<and> (value_like T \<longrightarrow> zero_value (defaultof T) \<and> defaultof T \<noteq> Null)
   \<and> (\<not> value_like T \<longrightarrow> defaultof T = Null)"
  by (simp add: defaultof_zero_value defaultof_has_type defaultof_Null_iff)

text \<open>
  C6 at inputs: \<open>System.Int32\<close>, \<open>System.Boolean\<close>, a struct of two doubles, and a class.
\<close>

theorem defaultof_zero_or_null_witness:
  "value_like (Numeric Int32) \<and> defaultof (Numeric Int32) = Num 0
   \<and> value_like Boolean \<and> defaultof Boolean = Bool False
   \<and> value_like (Struct ''Point'' [Numeric Double, Numeric Double])
   \<and> defaultof (Struct ''Point'' [Numeric Double, Numeric Double]) = StructVal [Num 0, Num 0]
   \<and> zero_value (defaultof (Struct ''Point'' [Numeric Double, Numeric Double]))
   \<and> \<not> value_like (Reference ''Person'') \<and> defaultof (Reference ''Person'') = Null"
  using defaultof_zero_or_null [of "Struct ''Point'' [Numeric Double, Numeric Double]"]
    defaultof_zero_or_null [of "Reference ''Person''"]
  by simp

text \<open>
  C7. \<open>thisarg<T>\<close> is \<open>T\<close>: the alias is the identity on types, and a function type whose
  first parameter is marked is the function type with the parameter unmarked.
\<close>

theorem thisarg_is_identity:
  "thisarg T = T \<and> thisarg = (\<lambda>T. T) \<and> TFun (thisarg T # ps) r = TFun (T # ps) r"
  by (simp add: thisarg_def fun_eq_iff)




text \<open>
  C9, as amended. The two declarations of \<open>Span<T>\<close> agree on everything but the name of
  their one member: both declare a single \<open>readonly\<close> member of type \<open>int\<close> and a numeric
  index signature that returns \<open>T\<close>; the member is named \<open>length\<close> in src/lang.d.ts and
  \<open>Length\<close> in src/versions/10/lang.d.ts, so the two interface types differ.
\<close>

theorem span_same_up_to_member_name:
  "member_shapes (Span T) = [(True, int_ty)]
   \<and> member_shapes (Span_v10 T) = [(True, int_ty)]
   \<and> index_signature (Span T) = Some (TNumber, T)
   \<and> index_signature (Span_v10 T) = Some (TNumber, T)
   \<and> member_names (Span T) = [''length'']
   \<and> member_names (Span_v10 T) = [''Length'']
   \<and> Span T \<noteq> Span_v10 T"
  by (simp add: Span_def Span_v10_def member_names_def member_shapes_def)

text \<open>
  C9 as stated fails at the element type \<open>number\<close>: the member names differ.
\<close>

theorem span_member_name_differs:
  "member_names (Span TNumber) = [''length''] \<and> member_names (Span_v10 TNumber) = [''Length'']
   \<and> Span TNumber \<noteq> Span_v10 TNumber"
  by (simp add: Span_def Span_v10_def member_names_def)

text \<open>
  C10. Each of the sixteen numeric aliases is the host type \<open>number\<close>; hence any two of
  them are equal, and whatever relation the host checks between types holds of one exactly
  when it holds of the other.
\<close>

theorem numeric_aliases_are_number:
  "sbyte = TNumber \<and> short = TNumber \<and> int_ty = TNumber \<and> long = TNumber
   \<and> nint = TNumber \<and> int128 = TNumber \<and> byte = TNumber \<and> ushort = TNumber
   \<and> uint = TNumber \<and> ulong = TNumber \<and> nuint = TNumber \<and> uint128 = TNumber
   \<and> half = TNumber \<and> float = TNumber \<and> double = TNumber \<and> decimal = TNumber
   \<and> length numeric_aliases = 16
   \<and> (\<forall>a b. a \<in> set numeric_aliases \<and> b \<in> set numeric_aliases \<longrightarrow>
         a = b \<and> (\<forall>assignable T. assignable a T = assignable b T
                     \<and> assignable T a = assignable T b))"
  by (simp add: numeric_aliases_def sbyte_def short_def int_ty_def long_def nint_def int128_def
      byte_def ushort_def uint_def ulong_def nuint_def uint128_def half_def float_def
      double_def decimal_def)

text \<open>
  C10 at an input: \<open>sbyte\<close> and \<open>decimal\<close>.
\<close>

theorem numeric_aliases_are_number_witness:
  "sbyte \<in> set numeric_aliases \<and> decimal \<in> set numeric_aliases \<and> sbyte = decimal
   \<and> assignable_top sbyte TUnknown = assignable_top decimal TUnknown"
proof -
  have mem: "sbyte \<in> set numeric_aliases \<and> decimal \<in> set numeric_aliases"
    by (simp add: numeric_aliases_def)
  have "\<forall>a b. a \<in> set numeric_aliases \<and> b \<in> set numeric_aliases \<longrightarrow> a = b"
    using numeric_aliases_are_number by blast
  with mem have "sbyte = decimal" by blast
  with mem show ?thesis by simp
qed

end
